theory Spec2Isabelle
  imports Complex_Main "HOL-Library.Sublist"
begin

section \<open>Data model\<close>

text \<open>
  The program (\<^verbatim>\<open>main.go\<close>) reads a weewx SQLite archive, derives the statistics of
  two calendar days and composes a post.  The embedding makes three things explicit that
  the Go code gets from its libraries:

  \<^item> \<^verbatim>\<open>float64\<close> is a finite real number or the not-a-number value.  Arithmetic on
    finite values is exact real arithmetic: rounding and infinities are not part of the
    model.  A comparison with not-a-number is false, as in Go.
  \<^item> \<^verbatim>\<open>sql.NullFloat64\<close> is \<open>real option\<close>: \<open>None\<close> is \<^verbatim>\<open>Valid == false\<close>.  A value
    read from the store is a number: SQLite keeps no not-a-number in a column, it stores
    NULL instead.
  \<^item> The database is the content of the two tables the queries read, each either a list of
    rows (in the order the store returns them) or unreadable, in which case every query on
    it fails.
\<close>

datatype float64 = NaN | Fin real

fun f_gt :: "float64 \<Rightarrow> real \<Rightarrow> bool" where
  "f_gt NaN c = False"
| "f_gt (Fin x) c = (x > c)"

fun f_ge :: "float64 \<Rightarrow> real \<Rightarrow> bool" where
  "f_ge NaN c = False"
| "f_ge (Fin x) c = (x \<ge> c)"

fun f_lt :: "float64 \<Rightarrow> real \<Rightarrow> bool" where
  "f_lt NaN c = False"
| "f_lt (Fin x) c = (x < c)"

fun IsNaN :: "float64 \<Rightarrow> bool" where
  "IsNaN NaN = True"
| "IsNaN (Fin x) = False"

text \<open>Rows of the tables \<^verbatim>\<open>archive\<close> and \<^verbatim>\<open>archive_day_rain\<close>, with the columns the queries name.\<close>

datatype archive_row =
  ArchiveRow (a_dateTime: int) (outTemp: "real option") (rain: "real option")
    (maxSolarRad: "real option")

datatype day_rain_row = DayRainRow (r_dateTime: int) (r_sum: "real option")

datatype 'r table = Unreadable | Table "'r list"

record db =
  archive :: "archive_row table"
  archive_day_rain :: "day_rain_row table"

text \<open>
  \<^verbatim>\<open>*time.Location\<close>: the two conversions the code asks of a time zone, the hour of day of
  a Unix time (\<^verbatim>\<open>time.Unix(ts, 0).In(loc).Hour()\<close>) and the Unix time of the local midnight
  that starts its calendar day (\<^verbatim>\<open>time.Date(y, m, d, 0, 0, 0, 0, loc).Unix()\<close>).
\<close>

record location =
  hourOf :: "int \<Rightarrow> nat"
  midnightOf :: "int \<Rightarrow> int"

text \<open>A zone with a fixed offset of \<open>off\<close> seconds east of UTC.\<close>

definition fixedZone :: "int \<Rightarrow> location" where
  "fixedZone off =
     \<lparr> hourOf = (\<lambda>ts. nat (((ts + off) mod 86400) div 3600)),
       midnightOf = (\<lambda>ts. ts - ((ts + off) mod 86400)) \<rparr>"

record dayStats =
  tMax :: float64
  tMin :: float64
  rainSum :: float64
  sunHours :: nat

section \<open>Effects\<close>

text \<open>
  Every query sent to the store, every line written to standard error or to the log and
  every call of a publishing client is an event; a function that has effects returns the
  events it caused, in order.
\<close>

datatype query =
    QSummary int int
  | QRain int
  | QRainFallback int int
  | QHourly int int

datatype sql_error = ErrNoRows | ErrQuery

datatype message =
    WarnMaxNull int int
  | WarnMinNull int int
  | WarnRainNotFound int
  | WarnRainNull int
  | WarnNaNSkip
  | FatalYesterdayStats sql_error
  | FatalVorgesternStats sql_error
  | LemmySkipped

section \<open>The queries\<close>

definition inWindow :: "int \<Rightarrow> int \<Rightarrow> int \<Rightarrow> bool" where
  "inWindow start endT t = (t \<ge> start \<and> t < endT)"

fun sqlMax :: "real list \<Rightarrow> real option" where
  "sqlMax [] = None"
| "sqlMax (x # xs) = Some (fold max xs x)"

fun sqlMin :: "real list \<Rightarrow> real option" where
  "sqlMin [] = None"
| "sqlMin (x # xs) = Some (fold min xs x)"

text \<open>
  \<^verbatim>\<open>SELECT MAX(outTemp), MIN(outTemp) FROM archive WHERE dateTime >= ? AND dateTime < ?\<close>:
  an aggregate always returns one row; each column is NULL when no row of the window has a
  temperature.
\<close>

definition qSummary :: "db \<Rightarrow> int \<Rightarrow> int \<Rightarrow> sql_error + (real option \<times> real option)" where
  "qSummary d start endT =
     (case archive d of
        Unreadable \<Rightarrow> Inl ErrQuery
      | Table rows \<Rightarrow>
          (let temps = List.map_filter
                 (\<lambda>r. if inWindow start endT (a_dateTime r) then outTemp r else None) rows
           in Inr (sqlMax temps, sqlMin temps)))"

text \<open>
  \<^verbatim>\<open>db.QueryRow(q, ...).Scan(&rainSum)\<close> on \<^verbatim>\<open>archive_day_rain\<close>: the first row the query
  selects, \<^verbatim>\<open>sql.ErrNoRows\<close> when it selects none.
\<close>

definition queryRowSum :: "db \<Rightarrow> (int \<Rightarrow> bool) \<Rightarrow> sql_error + real option" where
  "queryRowSum d sel =
     (case archive_day_rain d of
        Unreadable \<Rightarrow> Inl ErrQuery
      | Table rows \<Rightarrow>
          (case find (\<lambda>r. sel (r_dateTime r)) rows of
             None \<Rightarrow> Inl ErrNoRows
           | Some r \<Rightarrow> Inr (r_sum r)))"

text \<open>\<^verbatim>\<open>SELECT sum FROM archive_day_rain WHERE dateTime = ?\<close>\<close>

definition qRain :: "db \<Rightarrow> int \<Rightarrow> sql_error + real option" where
  "qRain d dayStartUnix = queryRowSum d (\<lambda>t. t = dayStartUnix)"

text \<open>\<^verbatim>\<open>SELECT sum FROM archive_day_rain WHERE dateTime >= ? AND dateTime < ?\<close>\<close>

definition qRainFallback :: "db \<Rightarrow> int \<Rightarrow> int \<Rightarrow> sql_error + real option" where
  "qRainFallback d start endT = queryRowSum d (inWindow start endT)"

text \<open>\<^verbatim>\<open>SELECT dateTime, rain, maxSolarRad FROM archive WHERE dateTime >= ? AND dateTime < ?\<close>\<close>

definition qHourly :: "db \<Rightarrow> int \<Rightarrow> int \<Rightarrow> sql_error + archive_row list" where
  "qHourly d start endT =
     (case archive d of
        Unreadable \<Rightarrow> Inl ErrQuery
      | Table rows \<Rightarrow> Inr (filter (\<lambda>r. inWindow start endT (a_dateTime r)) rows))"

section \<open>The report and the events\<close>

text \<open>
  \<^verbatim>\<open>fmt.Sprintf\<close> and the date layout are library code: a title is the tuple of the
  arguments the title's format string receives (the emoji prefix, the start of yesterday
  and the four temperatures), and the body \<^verbatim>\<open>weatherText\<close> is the list of its sentences,
  each with the numbers it prints.
\<close>

datatype title = Title string int float64 float64 float64 float64

datatype sentence =
    Summary float64 float64 nat nat
  | RainAgainAfter nat
  | NoRainSince nat
  | RainingSince nat

record config =
  LemmyPassword :: string
  MastodonServer :: string
  MastodonToken :: string
  MastodonVisibility :: string

datatype event =
    Query query
  | Stderr message
  | LogPrintf message
  | LogFatalf message
  | PrintStats dayStats dayStats
  | PrintTestPost title "sentence list"
  | PrintMastodonConfig
  | PrintMastodonSim title "sentence list"
  | LemmyPostWithRetry title "sentence list" bool
  | MastodonCreatePost title "sentence list" string

section \<open>getStats\<close>

definition sunThreshold :: real where
  "sunThreshold = 120"

definition drySpellThreshold :: nat where
  "drySpellThreshold = 3"

text \<open>
  Part 2 of \<^verbatim>\<open>getStats\<close>, the day's rain from \<^verbatim>\<open>archive_day_rain\<close>: the value of
  \<^verbatim>\<open>s.rainSum\<close> and the events, given \<^verbatim>\<open>dayStartUnix\<close> and the window.
\<close>

definition getStats_rain :: "db \<Rightarrow> int \<Rightarrow> int \<Rightarrow> int \<Rightarrow> float64 \<times> event list" where
  "getStats_rain d dayStartUnix start endT =
     (case qRain d dayStartUnix of
        Inl err \<Rightarrow>
          (case qRainFallback d start endT of
             Inl err2 \<Rightarrow>
               (Fin 0, [Query (QRain dayStartUnix), Query (QRainFallback start endT),
                        Stderr (WarnRainNotFound dayStartUnix)])
           | Inr (Some v) \<Rightarrow>
               (Fin (v * 10), [Query (QRain dayStartUnix), Query (QRainFallback start endT)])
           | Inr None \<Rightarrow>
               (Fin 0, [Query (QRain dayStartUnix), Query (QRainFallback start endT),
                        Stderr (WarnRainNull dayStartUnix)]))
      | Inr (Some v) \<Rightarrow> (Fin (v * 10), [Query (QRain dayStartUnix)])
      | Inr None \<Rightarrow> (Fin 0, [Query (QRain dayStartUnix), Stderr (WarnRainNull dayStartUnix)]))"

text \<open>
  Part 3, the loop over the rows of the hourly query.  \<^verbatim>\<open>seenSun\<close> is a
  \<^verbatim>\<open>map[int]struct{}\<close>, that is a set of hours, and \<^verbatim>\<open>len(seenSun)\<close> its cardinality.
\<close>

fun seenSunLoop :: "location \<Rightarrow> archive_row list \<Rightarrow> nat set \<Rightarrow> nat set" where
  "seenSunLoop loc [] seenSun = seenSun"
| "seenSunLoop loc (r # rows) seenSun =
     (let h = hourOf loc (a_dateTime r) in
      if (case maxSolarRad r of Some v \<Rightarrow> v \<ge> sunThreshold | None \<Rightarrow> False)
      then seenSunLoop loc rows (insert h seenSun)
      else seenSunLoop loc rows seenSun)"

definition getStats :: "db \<Rightarrow> location \<Rightarrow> int \<Rightarrow> int \<Rightarrow> (sql_error + dayStats) \<times> event list" where
  "getStats d loc start endT =
     (case qSummary d start endT of
        Inl err \<Rightarrow> (Inl err, [Query (QSummary start endT)])
      | Inr (tMaxN, tMinN) \<Rightarrow>
          (let (tMaxF, ev1) = (case tMaxN of Some v \<Rightarrow> (Fin v, [])
                               | None \<Rightarrow> (NaN, [Stderr (WarnMaxNull start endT)]));
               (tMinF, ev2) = (case tMinN of Some v \<Rightarrow> (Fin v, [])
                               | None \<Rightarrow> (NaN, [Stderr (WarnMinNull start endT)]));
               dayStartUnix = midnightOf loc start;
               (rainF, ev3) = getStats_rain d dayStartUnix start endT;
               ev = [Query (QSummary start endT)] @ ev1 @ ev2 @ ev3 @ [Query (QHourly start endT)]
           in case qHourly d start endT of
                Inl err \<Rightarrow> (Inl err, ev)
              | Inr rows \<Rightarrow>
                  (Inr \<lparr> tMax = tMaxF, tMin = tMinF, rainSum = rainF,
                         sunHours = card (seenSunLoop loc rows {}) \<rparr>, ev)))"

section \<open>The streak scans of runWeatherPosting\<close>

text \<open>
  \<open>dayStart i\<close> is the Unix time of the local midnight \<open>i\<close> days before today, which the
  code computes as
  \<^verbatim>\<open>time.Date(now.Year(), now.Month(), now.Day(), 0, 0, 0, 0, loc).AddDate(0, 0, -i)\<close>.
  Both loops are \<^verbatim>\<open>for i := 1; i < 30; i++\<close>; each returns its counter and the queries
  it sent.
\<close>

function daysSinceRainLoop ::
  "db \<Rightarrow> (nat \<Rightarrow> int) \<Rightarrow> nat \<Rightarrow> nat \<Rightarrow> event list \<Rightarrow> nat \<times> event list" where
  "daysSinceRainLoop d dayStart i daysSinceRain ev =
     (if i < 30 then
        (case qRain d (dayStart i) of
           Inl err \<Rightarrow> (daysSinceRain, ev @ [Query (QRain (dayStart i))])
         | Inr rainSumN \<Rightarrow>
             if (case rainSumN of Some v \<Rightarrow> v * 10 > 0 | None \<Rightarrow> False)
             then (daysSinceRain, ev @ [Query (QRain (dayStart i))])
             else daysSinceRainLoop d dayStart (i + 1) (daysSinceRain + 1)
                    (ev @ [Query (QRain (dayStart i))]))
      else (daysSinceRain, ev))"
  by pat_completeness auto
termination
  by (relation "measure (\<lambda>(d, dayStart, i, n, ev). 30 - i)") auto

function consecutiveRainDaysLoop ::
  "db \<Rightarrow> (nat \<Rightarrow> int) \<Rightarrow> nat \<Rightarrow> nat \<Rightarrow> event list \<Rightarrow> nat \<times> event list" where
  "consecutiveRainDaysLoop d dayStart i consecutiveRainDays ev =
     (if i < 30 then
        (case qRain d (dayStart i) of
           Inl err \<Rightarrow> (consecutiveRainDays, ev @ [Query (QRain (dayStart i))])
         | Inr rainSumN \<Rightarrow>
             if (case rainSumN of Some v \<Rightarrow> v * 10 > 0 | None \<Rightarrow> False)
             then consecutiveRainDaysLoop d dayStart (i + 1) (consecutiveRainDays + 1)
                    (ev @ [Query (QRain (dayStart i))])
             else (consecutiveRainDays, ev @ [Query (QRain (dayStart i))]))
      else (consecutiveRainDays, ev))"
  by pat_completeness auto
termination
  by (relation "measure (\<lambda>(d, dayStart, i, n, ev). 30 - i)") auto

declare daysSinceRainLoop.simps [simp del]
declare consecutiveRainDaysLoop.simps [simp del]

definition daysSinceRain :: "db \<Rightarrow> (nat \<Rightarrow> int) \<Rightarrow> nat" where
  "daysSinceRain d dayStart = fst (daysSinceRainLoop d dayStart 1 0 [])"

definition consecutiveRainDays :: "db \<Rightarrow> (nat \<Rightarrow> int) \<Rightarrow> nat" where
  "consecutiveRainDays d dayStart = fst (consecutiveRainDaysLoop d dayStart 1 0 [])"

section \<open>The emoji prefix of the title\<close>

text \<open>
  The pictographs of the string literals of the source, as UTF-8 bytes.  Each literal of
  the source is its pictograph followed by one space (\<open>0x20\<close>); \<open>emojis\<close> below appends
  that space where it appends the literal.
\<close>

definition emojiRain :: string where
  "emojiRain = [CHR 0xF0, CHR 0x9F, CHR 0x8C, CHR 0xA7, CHR 0xEF, CHR 0xB8, CHR 0x8F]"

definition emojiHeatwave :: string where
  "emojiHeatwave = [CHR 0xF0, CHR 0x9F, CHR 0x8F, CHR 0x9C, CHR 0xEF, CHR 0xB8, CHR 0x8F]"

definition emojiHot :: string where
  "emojiHot = [CHR 0xF0, CHR 0x9F, CHR 0x8C, CHR 0xA1, CHR 0xEF, CHR 0xB8, CHR 0x8F]"

definition emojiSunny :: string where
  "emojiSunny = [CHR 0xE2, CHR 0x98, CHR 0x80, CHR 0xEF, CHR 0xB8, CHR 0x8F]"

definition emojiFrost :: string where
  "emojiFrost = [CHR 0xE2, CHR 0x9D, CHR 0x84, CHR 0xEF, CHR 0xB8, CHR 0x8F]"

definition emojiFreeze :: string where
  "emojiFreeze = [CHR 0xF0, CHR 0x9F, CHR 0xA7, CHR 0x8A]"

definition emojiWarmNight :: string where
  "emojiWarmNight = [CHR 0xF0, CHR 0x9F, CHR 0x8C, CHR 0x99]"

text \<open>\<^verbatim>\<open>strings.Join\<close>\<close>

fun strings_Join :: "string list \<Rightarrow> string \<Rightarrow> string" where
  "strings_Join [] sep = []"
| "strings_Join [x] sep = x"
| "strings_Join (x # y # xs) sep = x @ sep @ strings_Join (y # xs) sep"

definition emojis :: "dayStats \<Rightarrow> string list" where
  "emojis statsY =
     (let e0 = [];
          e1 = (if f_gt (rainSum statsY) 0 then e0 @ [emojiRain @ '' ''] else e0);
          e2 = (if f_ge (tMax statsY) 35 then e1 @ [emojiHeatwave @ '' '']
                else if f_ge (tMax statsY) 30 then e1 @ [emojiHot @ '' '']
                else if f_ge (tMax statsY) 25 then e1 @ [emojiSunny @ '' '']
                else e1);
          e3 = (if f_lt (tMin statsY) 0 then e2 @ [emojiFrost @ '' ''] else e2);
          e4 = (if f_lt (tMax statsY) 0 then e3 @ [emojiFreeze @ '' ''] else e3);
          e5 = (if f_ge (tMin statsY) 20 then e4 @ [emojiWarmNight @ '' ''] else e4)
      in e5)"

definition emojiString :: "dayStats \<Rightarrow> string" where
  "emojiString statsY =
     (if length (emojis statsY) > 0 then strings_Join (emojis statsY) '' '' @ '' '' else [])"

section \<open>runWeatherPosting\<close>

text \<open>
  One reporting cycle, as the list of its events.  \<open>dayStart 1\<close>, \<open>dayStart 0\<close> are
  \<^verbatim>\<open>startYesterday\<close>, \<^verbatim>\<open>endYesterday\<close> and \<open>dayStart 2\<close>, \<open>dayStart 1\<close> the window of the
  day before.  Loading the time zone, opening the database file and the comparison with a
  NOAA report file in test mode are left out; a publishing client is modelled up to its
  call.
\<close>

definition weatherText :: "dayStats \<Rightarrow> dayStats \<Rightarrow> nat \<Rightarrow> nat \<Rightarrow> sentence list" where
  "weatherText statsY statsV dsr crd =
     [Summary (rainSum statsY) (rainSum statsV) (sunHours statsY) (sunHours statsV)]
     @ (if dsr \<ge> drySpellThreshold
        then (if f_gt (rainSum statsY) 0 then [RainAgainAfter dsr] else [NoRainSince dsr])
        else [])
     @ (if crd \<ge> drySpellThreshold then [RainingSince crd] else [])"

definition publish :: "config \<Rightarrow> bool \<Rightarrow> bool \<Rightarrow> title \<Rightarrow> sentence list \<Rightarrow> event list" where
  "publish cfg testMode loopMode ttl body =
     (let mastodon = (MastodonServer cfg \<noteq> [] \<and> MastodonToken cfg \<noteq> []) in
      if \<not> testMode \<and> LemmyPassword cfg \<noteq> ''CHANGEME'' then
        [LemmyPostWithRetry ttl body loopMode]
        @ (if mastodon then [MastodonCreatePost ttl body (MastodonVisibility cfg)] else [])
      else if testMode then
        [PrintTestPost ttl body, PrintMastodonConfig]
        @ (if mastodon
           then [PrintMastodonSim ttl body, MastodonCreatePost ttl body (MastodonVisibility cfg)]
           else [])
      else
        [LogPrintf LemmySkipped]
        @ (if mastodon then [MastodonCreatePost ttl body (MastodonVisibility cfg)] else []))"

definition runWeatherPosting ::
  "db \<Rightarrow> config \<Rightarrow> bool \<Rightarrow> bool \<Rightarrow> location \<Rightarrow> (nat \<Rightarrow> int) \<Rightarrow> event list" where
  "runWeatherPosting d cfg testMode loopMode loc dayStart =
     (case getStats d loc (dayStart 1) (dayStart 0) of
        (Inl err, evY) \<Rightarrow> evY @ [LogFatalf (FatalYesterdayStats err)]
      | (Inr statsY, evY) \<Rightarrow>
          (case getStats d loc (dayStart 2) (dayStart 1) of
             (Inl err, evV) \<Rightarrow> evY @ evV @ [LogFatalf (FatalVorgesternStats err)]
           | (Inr statsV, evV) \<Rightarrow>
               if IsNaN (tMax statsY) \<or> IsNaN (tMin statsY)
                  \<or> IsNaN (tMax statsV) \<or> IsNaN (tMin statsV)
               then evY @ evV @ [LogPrintf WarnNaNSkip]
               else
                 (let (dsr, evD) = daysSinceRainLoop d dayStart 1 0 [];
                      (crd, evC) = consecutiveRainDaysLoop d dayStart 1 0 [];
                      body = weatherText statsY statsV dsr crd;
                      ttl = Title (emojiString statsY) (dayStart 1)
                              (tMax statsY) (tMin statsY) (tMax statsV) (tMin statsV)
                  in evY @ evV @ evD @ evC @ [PrintStats statsY statsV]
                     @ publish cfg testMode loopMode ttl body)))"

section \<open>The streak rules in the specification's words\<close>

text \<open>
  The specification of the streak analyzer sorts each lookback day by the answer of the
  rollup query at its local midnight: the history ends where the query fails or returns no
  row, a day is wet when the scaled value is positive, and dry otherwise.
\<close>

datatype dayKind = Wet | Dry | EndOfHistory

fun kindOf :: "sql_error + real option \<Rightarrow> dayKind" where
  "kindOf (Inl err) = EndOfHistory"
| "kindOf (Inr None) = Dry"
| "kindOf (Inr (Some v)) = (if v * 10 > 0 then Wet else Dry)"

section \<open>The sunshine and emoji rules in the specification's words\<close>

text \<open>
  A reading qualifies when its solar radiation is present and at least 120; the sunshine
  hours of a window are the distinct local hours of its qualifying readings.
\<close>

definition qualifies :: "archive_row \<Rightarrow> bool" where
  "qualifies r = (case maxSolarRad r of Some v \<Rightarrow> v \<ge> 120 | None \<Rightarrow> False)"

definition sunnyHours :: "location \<Rightarrow> int \<Rightarrow> int \<Rightarrow> archive_row list \<Rightarrow> nat set" where
  "sunnyHours loc start endT rows =
     (\<lambda>r. hourOf loc (a_dateTime r)) `
       set (filter (\<lambda>r. start \<le> a_dateTime r \<and> a_dateTime r < endT \<and> qualifies r) rows)"

text \<open>
  The pictographs that fire for a day, in the order of the rule list: rain, the heat tier
  (heatwave, else hot, else sunny), frost, freeze, warm night.
\<close>

definition heatTier :: "float64 \<Rightarrow> string option" where
  "heatTier t =
     (if f_ge t 35 then Some emojiHeatwave
      else if f_ge t 30 then Some emojiHot
      else if f_ge t 25 then Some emojiSunny
      else None)"

definition firedEmojis :: "dayStats \<Rightarrow> string list" where
  "firedEmojis s =
     List.map_filter id
       [if f_gt (rainSum s) 0 then Some emojiRain else None,
        heatTier (tMax s),
        if f_lt (tMin s) 0 then Some emojiFrost else None,
        if f_lt (tMax s) 0 then Some emojiFreeze else None,
        if f_ge (tMin s) 20 then Some emojiWarmNight else None]"

section \<open>Concrete histories\<close>

text \<open>
  \<open>dayStartAt i\<close> is midnight UTC \<open>i\<close> days before day 100 of the epoch, and
  \<open>historyDb vals\<close> a store whose rollup table has one row for each of the days
  \<open>1, 2, \<dots>\<close> before the reference day, with the given sums (most recent first), and
  whose archive is empty.
\<close>

definition dayStartAt :: "nat \<Rightarrow> int" where
  "dayStartAt i = 86400 * (100 - int i)"

definition historyDb :: "real option list \<Rightarrow> db" where
  "historyDb vals =
     \<lparr> archive = Table [],
       archive_day_rain =
         Table (map (\<lambda>(i, v). DayRainRow (dayStartAt i) v) (zip [1..<Suc (length vals)] vals)) \<rparr>"

section \<open>Observations on event lists\<close>

text \<open>The rollup queries among the events, in the order they were sent.\<close>

fun rainQueries :: "event list \<Rightarrow> query list" where
  "rainQueries [] = []"
| "rainQueries (Query (QRain t) # es) = QRain t # rainQueries es"
| "rainQueries (Query (QRainFallback a b) # es) = QRainFallback a b # rainQueries es"
| "rainQueries (e # es) = rainQueries es"

text \<open>The events that carry a composed report: a publishing call or a test-mode print of it.\<close>

fun isReportEvent :: "event \<Rightarrow> bool" where
  "isReportEvent (PrintTestPost t b) = True"
| "isReportEvent (PrintMastodonSim t b) = True"
| "isReportEvent (LemmyPostWithRetry t b l) = True"
| "isReportEvent (MastodonCreatePost t b v) = True"
| "isReportEvent e = False"

section \<open>A concrete station\<close>

text \<open>
  Readings of yesterday, the day before the reference day: two at or above the sunshine
  threshold in local hour 0, one in hour 1, one just below the threshold in hour 2 and one
  without a radiation value; and one reading that belongs to the reference day itself.
  The day before yesterday has no readings at all.
\<close>

definition sampleArchive :: "archive_row list" where
  "sampleArchive =
     [ArchiveRow (dayStartAt 1 + 10) (Some 11.5) None (Some 120),
      ArchiveRow (dayStartAt 1 + 20) (Some 12) (Some 0) (Some 130),
      ArchiveRow (dayStartAt 1 + 3700) (Some 14) None (Some 500),
      ArchiveRow (dayStartAt 1 + 7300) None None (Some 119.9),
      ArchiveRow (dayStartAt 1 + 11000) (Some 9) None None,
      ArchiveRow (dayStartAt 0 + 18000) (Some 30) None (Some 900)]"

definition stationDb :: "day_rain_row list \<Rightarrow> db" where
  "stationDb rrows = \<lparr> archive = Table sampleArchive, archive_day_rain = Table rrows \<rparr>"

definition liveConfig :: config where
  "liveConfig = \<lparr> LemmyPassword = ''secret'', MastodonServer = ''https://example.social'',
                  MastodonToken = ''token'', MastodonVisibility = ''unlisted'' \<rparr>"

section \<open>The streak scans as prefixes of the lookback days\<close>

lemma kindOf_Dry_iff:
  "(kindOf r = Dry) = (case r of Inl err \<Rightarrow> False
      | Inr rainSumN \<Rightarrow> \<not> (case rainSumN of Some v \<Rightarrow> v * 10 > 0 | None \<Rightarrow> False))"
  by (cases r rule: kindOf.cases) simp_all

lemma kindOf_Wet_iff:
  "(kindOf r = Wet) = (case r of Inl err \<Rightarrow> False
      | Inr rainSumN \<Rightarrow> (case rainSumN of Some v \<Rightarrow> v * 10 > 0 | None \<Rightarrow> False))"
  by (cases r rule: kindOf.cases) simp_all

lemma daysSinceRainLoop_fst:
  "fst (daysSinceRainLoop d ds i n ev) =
     n + length (takeWhile (\<lambda>j. kindOf (qRain d (ds j)) = Dry) [i..<30])"
proof (induction d ds i n ev rule: daysSinceRainLoop.induct)
  case (1 d ds i n ev)
  show ?case
  proof (cases "i < 30")
    case False
    then show ?thesis by (simp add: daysSinceRainLoop.simps[of d ds i n ev])
  next
    case True
    then have upt: "[i..<30] = i # [i + 1..<30]" by (simp add: upt_conv_Cons)
    show ?thesis
    proof (cases "kindOf (qRain d (ds i)) = Dry")
      case dry: True
      then obtain r where r: "qRain d (ds i) = Inr r"
        "\<not> (case r of Some v \<Rightarrow> v * 10 > 0 | None \<Rightarrow> False)"
        by (auto simp: kindOf_Dry_iff split: sum.splits)
      from "1.IH"[OF True r] dry True r show ?thesis
        by (subst daysSinceRainLoop.simps) (simp add: upt del: upt_Suc)
    next
      case notdry: False
      then show ?thesis using True
        by (subst daysSinceRainLoop.simps) (auto simp: upt kindOf_Dry_iff split: sum.splits simp del: upt_Suc)
    qed
  qed
qed

lemma consecutiveRainDaysLoop_fst:
  "fst (consecutiveRainDaysLoop d ds i n ev) =
     n + length (takeWhile (\<lambda>j. kindOf (qRain d (ds j)) = Wet) [i..<30])"
proof (induction d ds i n ev rule: consecutiveRainDaysLoop.induct)
  case (1 d ds i n ev)
  show ?case
  proof (cases "i < 30")
    case False
    then show ?thesis by (simp add: consecutiveRainDaysLoop.simps[of d ds i n ev])
  next
    case True
    then have upt: "[i..<30] = i # [i + 1..<30]" by (simp add: upt_conv_Cons)
    show ?thesis
    proof (cases "kindOf (qRain d (ds i)) = Wet")
      case wet: True
      then obtain r where r: "qRain d (ds i) = Inr r"
        "(case r of Some v \<Rightarrow> v * 10 > 0 | None \<Rightarrow> False)"
        by (auto simp: kindOf_Wet_iff split: sum.splits)
      from "1.IH"[OF True r] wet True r show ?thesis
        by (subst consecutiveRainDaysLoop.simps) (simp add: upt del: upt_Suc)
    next
      case notwet: False
      then show ?thesis using True
        by (subst consecutiveRainDaysLoop.simps) (auto simp: upt kindOf_Wet_iff split: sum.splits simp del: upt_Suc)
    qed
  qed
qed

lemma daysSinceRainLoop_queries:
  "length (snd (daysSinceRainLoop d ds i n ev)) \<le> length ev + (30 - i)"
proof (induction d ds i n ev rule: daysSinceRainLoop.induct)
  case (1 d ds i n ev)
  show ?case
  proof (cases "i < 30")
    case False
    then show ?thesis by (simp add: daysSinceRainLoop.simps[of d ds i n ev])
  next
    case True
    show ?thesis using True "1.IH"[OF True]
      by (subst daysSinceRainLoop.simps) (auto split: sum.splits)
  qed
qed

lemma daysSinceRain_takeWhile:
  "daysSinceRain d ds = length (takeWhile (\<lambda>j. kindOf (qRain d (ds j)) = Dry) [1..<30])"
  by (simp add: daysSinceRain_def daysSinceRainLoop_fst del: upt_Suc)

lemma consecutiveRainDays_takeWhile:
  "consecutiveRainDays d ds = length (takeWhile (\<lambda>j. kindOf (qRain d (ds j)) = Wet) [1..<30])"
  by (simp add: consecutiveRainDays_def consecutiveRainDaysLoop_fst del: upt_Suc)

lemma daysSinceRain_le_29: "daysSinceRain d ds \<le> 29"
  using length_takeWhile_le[of "\<lambda>j. kindOf (qRain d (ds j)) = Dry" "[1..<30]"]
  by (simp add: daysSinceRain_takeWhile del: upt_Suc)

lemma consecutiveRainDays_le_29: "consecutiveRainDays d ds \<le> 29"
  using length_takeWhile_le[of "\<lambda>j. kindOf (qRain d (ds j)) = Wet" "[1..<30]"]
  by (simp add: consecutiveRainDays_takeWhile del: upt_Suc)

lemma daysSinceRain_all_dry:
  assumes "\<forall>i\<in>{1..<30}. kindOf (qRain d (ds i)) = Dry"
  shows "daysSinceRain d ds = 29"
proof -
  have h: "takeWhile (\<lambda>j. kindOf (qRain d (ds j)) = Dry) [1..<30] = [1..<30]"
    unfolding takeWhile_eq_all_conv using assms by simp
  show ?thesis unfolding daysSinceRain_takeWhile h by simp
qed

lemma takeWhile_upt_split:
  assumes "1 \<le> k" "k < 30" "\<forall>i\<in>{1..<k}. P i"
  shows "takeWhile P [1..<30] = [1..<k] @ takeWhile P (k # [Suc k..<30])"
proof -
  have a: "[1..<30] = [1..<k] @ [k..<30]"
    using assms(1,2) upt_add_eq_append[of 1 k "30 - k"] by simp
  have b: "[k..<30] = k # [Suc k..<30]"
    using assms(2) by (simp add: upt_conv_Cons)
  have "takeWhile P ([1..<k] @ [k..<30]) = [1..<k] @ takeWhile P [k..<30]"
    using assms(3) by (intro takeWhile_append2) simp
  then show ?thesis unfolding a b .
qed

text \<open>
  Claim C1.  The specification says that an unbroken dry history reports
  \<open>daysSinceRain = 30\<close>, and the comment at the loop says that it looks at most 30 days
  back.  The loop runs for \<open>i = 1, \<dots>, 29\<close>: on a history of 40 dry days it sends 29
  queries and reports 29, and an unbroken wet history of 40 days reports
  \<open>consecutiveRainDays = 29\<close>.
\<close>

theorem dry_forty_days_reports_29:
  "daysSinceRain (historyDb (replicate 40 (Some 0))) dayStartAt = 29
   \<and> length (snd (daysSinceRainLoop (historyDb (replicate 40 (Some 0))) dayStartAt 1 0 [])) = 29
   \<and> consecutiveRainDays (historyDb (replicate 40 (Some 0.5))) dayStartAt = 29"
  by code_simp

text \<open>
  Claim C4.  After the two scans at most one of \<open>daysSinceRain\<close> and
  \<open>consecutiveRainDays\<close> is non-zero: when the first lookback day is wet,
  \<open>daysSinceRain\<close> is zero; when it is dry, \<open>consecutiveRainDays\<close> is zero; and both are
  zero exactly when the rollup query of the first lookback day fails or returns no row.
\<close>

theorem streaks_mutually_exclusive:
  "(daysSinceRain d ds = 0 \<or> consecutiveRainDays d ds = 0)
   \<and> (kindOf (qRain d (ds 1)) = Wet \<longrightarrow> daysSinceRain d ds = 0)
   \<and> (kindOf (qRain d (ds 1)) = Dry \<longrightarrow> consecutiveRainDays d ds = 0)
   \<and> ((daysSinceRain d ds = 0 \<and> consecutiveRainDays d ds = 0) = isl (qRain d (ds 1)))"
proof -
  have upt: "[1..<30] = 1 # [2..<30]" by (simp add: upt_conv_Cons)
  show ?thesis
    unfolding daysSinceRain_takeWhile consecutiveRainDays_takeWhile upt
    by (cases "qRain d (ds 1)" rule: kindOf.cases) simp_all
qed

text \<open>
  The three cases of claim C4 on concrete histories: wet first, dry first, and no rollup
  row for the first lookback day.
\<close>

theorem streaks_mutually_exclusive_witness:
  "kindOf (qRain (historyDb [Some 1, Some 2, Some 0]) (dayStartAt 1)) = Wet
   \<and> daysSinceRain (historyDb [Some 1, Some 2, Some 0]) dayStartAt = 0
   \<and> consecutiveRainDays (historyDb [Some 1, Some 2, Some 0]) dayStartAt = 2
   \<and> kindOf (qRain (historyDb [Some 0, Some 0, Some 1, Some 1]) (dayStartAt 1)) = Dry
   \<and> consecutiveRainDays (historyDb [Some 0, Some 0, Some 1, Some 1]) dayStartAt = 0
   \<and> daysSinceRain (historyDb [Some 0, Some 0, Some 1, Some 1]) dayStartAt = 2
   \<and> isl (qRain (historyDb []) (dayStartAt 1))
   \<and> daysSinceRain (historyDb []) dayStartAt = 0
   \<and> consecutiveRainDays (historyDb []) dayStartAt = 0"
proof -
  have w: "kindOf (qRain (historyDb [Some 1, Some 2, Some 0]) (dayStartAt 1)) = Wet"
    by code_simp
  have d: "kindOf (qRain (historyDb [Some 0, Some 0, Some 1, Some 1]) (dayStartAt 1)) = Dry"
    by code_simp
  have e: "isl (qRain (historyDb []) (dayStartAt 1))"
    by code_simp
  have w2: "consecutiveRainDays (historyDb [Some 1, Some 2, Some 0]) dayStartAt = 2"
    by code_simp
  have d2: "daysSinceRain (historyDb [Some 0, Some 0, Some 1, Some 1]) dayStartAt = 2"
    by code_simp
  from w streaks_mutually_exclusive[of "historyDb [Some 1, Some 2, Some 0]" dayStartAt]
  have w1: "daysSinceRain (historyDb [Some 1, Some 2, Some 0]) dayStartAt = 0" by blast
  from d streaks_mutually_exclusive[of "historyDb [Some 0, Some 0, Some 1, Some 1]" dayStartAt]
  have d1: "consecutiveRainDays (historyDb [Some 0, Some 0, Some 1, Some 1]) dayStartAt = 0"
    by blast
  from e streaks_mutually_exclusive[of "historyDb []" dayStartAt]
  have e1: "daysSinceRain (historyDb []) dayStartAt = 0"
    and e2: "consecutiveRainDays (historyDb []) dayStartAt = 0" by blast+
  from w w1 w2 d d1 d2 e e1 e2 show ?thesis by blast
qed

text \<open>
  Claim C9.  A rollup row with a NULL sum counts as a dry day in both scans.  Let day \<open>k\<close>
  be within the lookback.  If its row has a NULL sum and all days before it were dry, the
  dry-streak scan counts day \<open>k\<close> and goes on with day \<open>k + 1\<close>; if all days before it
  were wet, the wet-streak scan ends there with \<open>k - 1\<close>.  If instead the query of day \<open>k\<close>
  fails or returns no row, the dry-streak scan stops there with \<open>k - 1\<close>.
\<close>

theorem null_sum_is_a_dry_day:
  assumes "1 \<le> k" and "k < 30"
  shows "(qRain d (ds k) = Inr None \<and> (\<forall>i\<in>{1..<k}. kindOf (qRain d (ds i)) = Dry) \<longrightarrow>
            daysSinceRain d ds
              = k + length (takeWhile (\<lambda>j. kindOf (qRain d (ds j)) = Dry) [Suc k..<30]))
       \<and> (qRain d (ds k) = Inr None \<and> (\<forall>i\<in>{1..<k}. kindOf (qRain d (ds i)) = Wet) \<longrightarrow>
            consecutiveRainDays d ds = k - 1)
       \<and> (isl (qRain d (ds k)) \<and> (\<forall>i\<in>{1..<k}. kindOf (qRain d (ds i)) = Dry) \<longrightarrow>
            daysSinceRain d ds = k - 1)"
proof (intro conjI impI)
  assume h: "qRain d (ds k) = Inr None \<and> (\<forall>i\<in>{1..<k}. kindOf (qRain d (ds i)) = Dry)"
  have split: "takeWhile (\<lambda>j. kindOf (qRain d (ds j)) = Dry) [1..<30]
      = [1..<k] @ takeWhile (\<lambda>j. kindOf (qRain d (ds j)) = Dry) (k # [Suc k..<30])"
    using h by (intro takeWhile_upt_split[OF assms]) simp
  show "daysSinceRain d ds
              = k + length (takeWhile (\<lambda>j. kindOf (qRain d (ds j)) = Dry) [Suc k..<30])"
    unfolding daysSinceRain_takeWhile split using h assms by simp
next
  assume h: "qRain d (ds k) = Inr None \<and> (\<forall>i\<in>{1..<k}. kindOf (qRain d (ds i)) = Wet)"
  have split: "takeWhile (\<lambda>j. kindOf (qRain d (ds j)) = Wet) [1..<30]
      = [1..<k] @ takeWhile (\<lambda>j. kindOf (qRain d (ds j)) = Wet) (k # [Suc k..<30])"
    using h by (intro takeWhile_upt_split[OF assms]) simp
  show "consecutiveRainDays d ds = k - 1"
    unfolding consecutiveRainDays_takeWhile split using h assms by simp
next
  assume h: "isl (qRain d (ds k)) \<and> (\<forall>i\<in>{1..<k}. kindOf (qRain d (ds i)) = Dry)"
  then have nd: "kindOf (qRain d (ds k)) \<noteq> Dry" by (cases "qRain d (ds k)") simp_all
  have split: "takeWhile (\<lambda>j. kindOf (qRain d (ds j)) = Dry) [1..<30]
      = [1..<k] @ takeWhile (\<lambda>j. kindOf (qRain d (ds j)) = Dry) (k # [Suc k..<30])"
    using h by (intro takeWhile_upt_split[OF assms]) simp
  show "daysSinceRain d ds = k - 1"
    unfolding daysSinceRain_takeWhile split using nd assms by simp
qed

text \<open>
  Claim C9 at day 2 of three histories: dry, NULL, dry, wet; wet, NULL, wet; and a
  history whose rollup table ends after one dry day.
\<close>

theorem null_sum_is_a_dry_day_witness:
  "(1::nat) \<le> 2 \<and> (2::nat) < 30
   \<and> qRain (historyDb [Some 0, None, Some 0, Some 1]) (dayStartAt 2) = Inr None
   \<and> kindOf (qRain (historyDb [Some 0, None, Some 0, Some 1]) (dayStartAt 1)) = Dry
   \<and> daysSinceRain (historyDb [Some 0, None, Some 0, Some 1]) dayStartAt = 3
   \<and> qRain (historyDb [Some 1, None, Some 1]) (dayStartAt 2) = Inr None
   \<and> kindOf (qRain (historyDb [Some 1, None, Some 1]) (dayStartAt 1)) = Wet
   \<and> consecutiveRainDays (historyDb [Some 1, None, Some 1]) dayStartAt = 1
   \<and> isl (qRain (historyDb [Some 0]) (dayStartAt 2))
   \<and> kindOf (qRain (historyDb [Some 0]) (dayStartAt 1)) = Dry
   \<and> daysSinceRain (historyDb [Some 0]) dayStartAt = 1"
proof -
  have one: "P 1 \<Longrightarrow> \<forall>i\<in>{1..<2::nat}. P i" for P
  proof
    fix i :: nat assume "P 1" "i \<in> {1..<2}"
    then show "P i" by (cases "i = 1") auto
  qed
  have k: "(1::nat) \<le> 2" "(2::nat) < 30" by simp_all
  have a0: "qRain (historyDb [Some 0, None, Some 0, Some 1]) (dayStartAt 2) = Inr None"
    by code_simp
  have a1': "kindOf (qRain (historyDb [Some 0, None, Some 0, Some 1]) (dayStartAt 1)) = Dry"
    by code_simp
  then have a1: "\<forall>i\<in>{1..<2}. kindOf (qRain (historyDb [Some 0, None, Some 0, Some 1]) (dayStartAt i)) = Dry"
    by (rule one)
  have a2: "length (takeWhile (\<lambda>j. kindOf (qRain (historyDb [Some 0, None, Some 0, Some 1]) (dayStartAt j)) = Dry)
               [Suc 2..<30]) = 1"
    by code_simp
  from null_sum_is_a_dry_day[OF k, of "historyDb [Some 0, None, Some 0, Some 1]" dayStartAt] a0 a1 a2
  have a: "daysSinceRain (historyDb [Some 0, None, Some 0, Some 1]) dayStartAt = 3" by simp
  have b0: "qRain (historyDb [Some 1, None, Some 1]) (dayStartAt 2) = Inr None"
    by code_simp
  have b1': "kindOf (qRain (historyDb [Some 1, None, Some 1]) (dayStartAt 1)) = Wet"
    by code_simp
  then have b1: "\<forall>i\<in>{1..<2}. kindOf (qRain (historyDb [Some 1, None, Some 1]) (dayStartAt i)) = Wet"
    by (rule one)
  from null_sum_is_a_dry_day[OF k, of "historyDb [Some 1, None, Some 1]" dayStartAt] b0 b1
  have b: "consecutiveRainDays (historyDb [Some 1, None, Some 1]) dayStartAt = 1" by simp
  have c0: "isl (qRain (historyDb [Some 0]) (dayStartAt 2))"
    by code_simp
  have c1': "kindOf (qRain (historyDb [Some 0]) (dayStartAt 1)) = Dry"
    by code_simp
  then have c1: "\<forall>i\<in>{1..<2}. kindOf (qRain (historyDb [Some 0]) (dayStartAt i)) = Dry"
    by (rule one)
  from null_sum_is_a_dry_day[OF k, of "historyDb [Some 0]" dayStartAt] c0 c1
  have c: "daysSinceRain (historyDb [Some 0]) dayStartAt = 1" by simp
  from k a0 a1' a b0 b1' b c0 c1' c show ?thesis by blast
qed

section \<open>getStats: results and events\<close>

lemma seenSunLoop_eq:
  "seenSunLoop loc rows S = S \<union> (\<lambda>r. hourOf loc (a_dateTime r)) ` set (filter qualifies rows)"
  by (induction rows arbitrary: S) (auto simp: qualifies_def sunThreshold_def Let_def split: option.splits)

lemma getStats_Inr:
  assumes "fst (getStats d loc start endT) = Inr s"
  obtains a b rows where "qSummary d start endT = Inr (a, b)" "qHourly d start endT = Inr rows"
    "tMax s = (case a of Some v \<Rightarrow> Fin v | None \<Rightarrow> NaN)"
    "tMin s = (case b of Some v \<Rightarrow> Fin v | None \<Rightarrow> NaN)"
    "rainSum s = fst (getStats_rain d (midnightOf loc start) start endT)"
    "sunHours s = card (seenSunLoop loc rows {})"
  using assms
  by (auto simp: getStats_def Let_def split: sum.splits prod.splits option.splits)

lemma getStats_events:
  assumes "qSummary d start endT = Inr (a, b)"
  shows "snd (getStats d loc start endT) =
     [Query (QSummary start endT)]
     @ (case a of Some v \<Rightarrow> [] | None \<Rightarrow> [Stderr (WarnMaxNull start endT)])
     @ (case b of Some v \<Rightarrow> [] | None \<Rightarrow> [Stderr (WarnMinNull start endT)])
     @ snd (getStats_rain d (midnightOf loc start) start endT)
     @ [Query (QHourly start endT)]"
  using assms
  by (auto simp: getStats_def Let_def split: sum.splits prod.splits option.splits)

lemma getStats_rain_events_plain:
  "filter isReportEvent (snd (getStats_rain d m start endT)) = []"
  by (simp add: getStats_rain_def split: sum.splits option.splits)

lemma getStats_events_plain:
  "filter isReportEvent (snd (getStats d loc start endT)) = []"
proof (cases "qSummary d start endT")
  case (Inl e)
  then show ?thesis by (simp add: getStats_def)
next
  case (Inr ab)
  then obtain a b where "qSummary d start endT = Inr (a, b)" by (cases ab) simp
  from getStats_events[OF this] show ?thesis
    by (simp add: getStats_rain_events_plain split: option.splits)
qed

lemma rainQueries_append: "rainQueries (xs @ ys) = rainQueries xs @ rainQueries ys"
  by (induction xs rule: rainQueries.induct) simp_all

lemma getStats_rain_queries:
  "rainQueries (snd (getStats_rain d m start endT)) =
     (if isl (qRain d m) then [QRain m, QRainFallback start endT] else [QRain m])"
  by (simp add: getStats_rain_def split: sum.splits option.splits)

lemma getStats_rainQueries:
  assumes "qSummary d start endT = Inr (a, b)"
  shows "rainQueries (snd (getStats d loc start endT)) =
     (if isl (qRain d (midnightOf loc start))
      then [QRain (midnightOf loc start), QRainFallback start endT]
      else [QRain (midnightOf loc start)])"
  unfolding getStats_events[OF assms] rainQueries_append getStats_rain_queries
  by (simp split: option.splits)

lemma getStats_rain_warnings:
  "Stderr (WarnRainNull m) \<in> set (snd (getStats_rain d m start endT)) =
     (qRain d m = Inr None \<or> (isl (qRain d m) \<and> qRainFallback d start endT = Inr None))"
  "Stderr (WarnRainNotFound m) \<in> set (snd (getStats_rain d m start endT)) =
     (isl (qRain d m) \<and> isl (qRainFallback d start endT))"
  by (auto simp: getStats_rain_def split: sum.splits option.splits)

subsection \<open>Sunshine hours\<close>

text \<open>
  Claim C2.  \<open>sunHours\<close> is the number of distinct local hours that hold at least one
  reading of the window with a solar radiation of at least 120; it is zero when no reading
  of the window qualifies.
\<close>

theorem sunHours_counts_distinct_hours:
  assumes "archive d = Table rows" and "fst (getStats d loc start endT) = Inr s"
  shows "sunHours s = card (sunnyHours loc start endT rows)
         \<and> (filter (\<lambda>r. inWindow start endT (a_dateTime r) \<and> qualifies r) rows = []
              \<longrightarrow> sunHours s = 0)"
proof -
  from assms(2) obtain hrows where h: "qHourly d start endT = Inr hrows"
    "sunHours s = card (seenSunLoop loc hrows {})"
    by (rule getStats_Inr)
  from h(1) assms(1) have "hrows = filter (\<lambda>r. inWindow start endT (a_dateTime r)) rows"
    by (simp add: qHourly_def)
  then have "seenSunLoop loc hrows {} = sunnyHours loc start endT rows"
    by (auto simp: seenSunLoop_eq sunnyHours_def inWindow_def)
  with h(2) have c: "sunHours s = card (sunnyHours loc start endT rows)" by simp
  have "filter (\<lambda>r. inWindow start endT (a_dateTime r) \<and> qualifies r) rows = []
          \<Longrightarrow> sunnyHours loc start endT rows = {}"
    by (simp add: sunnyHours_def inWindow_def)
  with c show ?thesis by auto
qed

text \<open>
  Claim C2 on the concrete station: two qualifying readings in hour 0 and one in hour 1
  give two sunshine hours, and the day without readings gives none.
\<close>

theorem sunHours_counts_distinct_hours_witness:
  "archive (stationDb []) = Table sampleArchive
   \<and> fst (getStats (stationDb []) (fixedZone 0) (dayStartAt 1) (dayStartAt 0))
       = Inr \<lparr> tMax = Fin 14, tMin = Fin 9, rainSum = Fin 0, sunHours = 2 \<rparr>
   \<and> card (sunnyHours (fixedZone 0) (dayStartAt 1) (dayStartAt 0) sampleArchive) = 2
   \<and> archive (stationDb []) = Table sampleArchive
   \<and> fst (getStats (stationDb []) (fixedZone 0) (dayStartAt 2) (dayStartAt 1))
       = Inr \<lparr> tMax = NaN, tMin = NaN, rainSum = Fin 0, sunHours = 0 \<rparr>
   \<and> filter (\<lambda>r. inWindow (dayStartAt 2) (dayStartAt 1) (a_dateTime r) \<and> qualifies r)
        sampleArchive = []"
proof -
  have a: "archive (stationDb []) = Table sampleArchive"
    by (simp add: stationDb_def)
  have g1: "fst (getStats (stationDb []) (fixedZone 0) (dayStartAt 1) (dayStartAt 0))
       = Inr \<lparr> tMax = Fin 14, tMin = Fin 9, rainSum = Fin 0, sunHours = 2 \<rparr>"
    by code_simp
  have g2: "fst (getStats (stationDb []) (fixedZone 0) (dayStartAt 2) (dayStartAt 1))
       = Inr \<lparr> tMax = NaN, tMin = NaN, rainSum = Fin 0, sunHours = 0 \<rparr>"
    by code_simp
  have f: "filter (\<lambda>r. inWindow (dayStartAt 2) (dayStartAt 1) (a_dateTime r) \<and> qualifies r)
        sampleArchive = []"
    by code_simp
  from sunHours_counts_distinct_hours[OF a g1]
  have c: "card (sunnyHours (fixedZone 0) (dayStartAt 1) (dayStartAt 0) sampleArchive) = 2"
    by simp
  from sunHours_counts_distinct_hours[OF a g2] f
  have "sunHours \<lparr> tMax = NaN, tMin = NaN, rainSum = Fin 0, sunHours = 0 \<rparr> = 0"
    by blast
  with a g1 g2 f c show ?thesis by blast
qed

subsection \<open>The daily rain\<close>

text \<open>
  Claim C3.  \<open>rainSum\<close> is ten times the non-null value the store returns, whether the
  exact-midnight query or the time-span fallback returns it, and zero when neither returns
  a value.  On finite values the product is exact, so a raw value of 1.23 gives 12.3.
\<close>

theorem rainSum_is_rollup_times_ten:
  assumes "fst (getStats d loc start endT) = Inr s"
  shows "(qRain d (midnightOf loc start) = Inr (Some v) \<longrightarrow> rainSum s = Fin (v * 10))
       \<and> (isl (qRain d (midnightOf loc start)) \<and> qRainFallback d start endT = Inr (Some v)
            \<longrightarrow> rainSum s = Fin (v * 10))
       \<and> (qRain d (midnightOf loc start) = Inr None
            \<or> (isl (qRain d (midnightOf loc start))
                \<and> (isl (qRainFallback d start endT) \<or> qRainFallback d start endT = Inr None))
            \<longrightarrow> rainSum s = Fin 0)"
proof -
  from assms have r: "rainSum s = fst (getStats_rain d (midnightOf loc start) start endT)"
    by (rule getStats_Inr)
  show ?thesis unfolding r
    by (auto simp: getStats_rain_def split: sum.splits option.splits)
qed

text \<open>
  Claim C3 with the value 1.23 in a row at local midnight, with the same value in a row
  one hour into the window, and with an empty rollup table.
\<close>

theorem rainSum_is_rollup_times_ten_witness:
  "fst (getStats (stationDb [DayRainRow (dayStartAt 1) (Some 1.23)]) (fixedZone 0)
          (dayStartAt 1) (dayStartAt 0))
     = Inr \<lparr> tMax = Fin 14, tMin = Fin 9, rainSum = Fin 12.3, sunHours = 2 \<rparr>
   \<and> qRain (stationDb [DayRainRow (dayStartAt 1) (Some 1.23)])
        (midnightOf (fixedZone 0) (dayStartAt 1)) = Inr (Some 1.23)
   \<and> fst (getStats (stationDb [DayRainRow (dayStartAt 1 + 3600) (Some 1.23)]) (fixedZone 0)
          (dayStartAt 1) (dayStartAt 0))
     = Inr \<lparr> tMax = Fin 14, tMin = Fin 9, rainSum = Fin 12.3, sunHours = 2 \<rparr>
   \<and> isl (qRain (stationDb [DayRainRow (dayStartAt 1 + 3600) (Some 1.23)])
        (midnightOf (fixedZone 0) (dayStartAt 1)))
   \<and> qRainFallback (stationDb [DayRainRow (dayStartAt 1 + 3600) (Some 1.23)])
        (dayStartAt 1) (dayStartAt 0) = Inr (Some 1.23)
   \<and> fst (getStats (stationDb []) (fixedZone 0) (dayStartAt 1) (dayStartAt 0))
     = Inr \<lparr> tMax = Fin 14, tMin = Fin 9, rainSum = Fin 0, sunHours = 2 \<rparr>
   \<and> isl (qRain (stationDb []) (midnightOf (fixedZone 0) (dayStartAt 1)))
   \<and> isl (qRainFallback (stationDb []) (dayStartAt 1) (dayStartAt 0))
   \<and> rainSum \<lparr> tMax = Fin 14, tMin = Fin 9, rainSum = Fin 12.3, sunHours = 2 \<rparr>
       = Fin (1.23 * 10)"
proof -
  have g1: "fst (getStats (stationDb [DayRainRow (dayStartAt 1) (Some 1.23)]) (fixedZone 0)
          (dayStartAt 1) (dayStartAt 0))
     = Inr \<lparr> tMax = Fin 14, tMin = Fin 9, rainSum = Fin 12.3, sunHours = 2 \<rparr>"
    by code_simp
  have q1: "qRain (stationDb [DayRainRow (dayStartAt 1) (Some 1.23)])
        (midnightOf (fixedZone 0) (dayStartAt 1)) = Inr (Some 1.23)"
    by code_simp
  have g2: "fst (getStats (stationDb [DayRainRow (dayStartAt 1 + 3600) (Some 1.23)]) (fixedZone 0)
          (dayStartAt 1) (dayStartAt 0))
     = Inr \<lparr> tMax = Fin 14, tMin = Fin 9, rainSum = Fin 12.3, sunHours = 2 \<rparr>"
    by code_simp
  have q2: "isl (qRain (stationDb [DayRainRow (dayStartAt 1 + 3600) (Some 1.23)])
        (midnightOf (fixedZone 0) (dayStartAt 1)))"
    by code_simp
  have q2': "qRainFallback (stationDb [DayRainRow (dayStartAt 1 + 3600) (Some 1.23)])
        (dayStartAt 1) (dayStartAt 0) = Inr (Some 1.23)"
    by code_simp
  have g3: "fst (getStats (stationDb []) (fixedZone 0) (dayStartAt 1) (dayStartAt 0))
     = Inr \<lparr> tMax = Fin 14, tMin = Fin 9, rainSum = Fin 0, sunHours = 2 \<rparr>"
    by code_simp
  have q3: "isl (qRain (stationDb []) (midnightOf (fixedZone 0) (dayStartAt 1)))"
    by code_simp
  have q3': "isl (qRainFallback (stationDb []) (dayStartAt 1) (dayStartAt 0))"
    by code_simp
  from rainSum_is_rollup_times_ten[OF g1, of "1.23"] q1
  have c1: "rainSum \<lparr> tMax = Fin 14, tMin = Fin 9, rainSum = Fin 12.3, sunHours = 2 \<rparr>
       = Fin (1.23 * 10)" by blast
  from rainSum_is_rollup_times_ten[OF g2, of "1.23"] q2 q2'
  have c2: "rainSum \<lparr> tMax = Fin 14, tMin = Fin 9, rainSum = Fin 12.3, sunHours = 2 \<rparr>
       = Fin (1.23 * 10)" by blast
  from rainSum_is_rollup_times_ten[OF g3] q3 q3'
  have c3: "rainSum \<lparr> tMax = Fin 14, tMin = Fin 9, rainSum = Fin 0, sunHours = 2 \<rparr> = Fin 0"
    by blast
  from g1 q1 g2 q2 q2' g3 q3 q3' c1 c2 c3 show ?thesis by blast
qed

text \<open>
  Claim C7.  With both tables readable, \<open>getStats\<close> returns statistics.  It first sends
  the query keyed by the local midnight of the window's start day; only when the table has
  no row with that timestamp does it send the time-span query, whose answer is the first
  row with a timestamp in \<open>[start, end)\<close>; when there is no such row either,
  \<open>rainSum\<close> is zero and the warning goes to standard error.
\<close>

theorem rain_lookup_falls_back:
  assumes "archive d = Table arows" and "archive_day_rain d = Table rrows"
  shows "\<exists>s. fst (getStats d loc start endT) = Inr s
       \<and> rainQueries (snd (getStats d loc start endT)) =
            (if find (\<lambda>r. r_dateTime r = midnightOf loc start) rrows = None
             then [QRain (midnightOf loc start), QRainFallback start endT]
             else [QRain (midnightOf loc start)])
       \<and> (find (\<lambda>r. r_dateTime r = midnightOf loc start) rrows = None \<longrightarrow>
            (case find (\<lambda>r. start \<le> r_dateTime r \<and> r_dateTime r < endT) rrows of
               None \<Rightarrow> rainSum s = Fin 0
                 \<and> Stderr (WarnRainNotFound (midnightOf loc start))
                      \<in> set (snd (getStats d loc start endT))
             | Some r \<Rightarrow> rainSum s = (case r_sum r of Some v \<Rightarrow> Fin (v * 10) | None \<Rightarrow> Fin 0)))"
proof -
  obtain a b where q: "qSummary d start endT = Inr (a, b)"
    using assms(1) by (simp add: qSummary_def Let_def)
  have hq: "qHourly d start endT = Inr (filter (\<lambda>r. inWindow start endT (a_dateTime r)) arows)"
    using assms(1) by (simp add: qHourly_def)
  obtain s where s: "fst (getStats d loc start endT) = Inr s"
    using q hq
    by (cases a; cases b; cases "getStats_rain d (midnightOf loc start) start endT")
       (simp_all add: getStats_def Let_def)
  from s have r: "rainSum s = fst (getStats_rain d (midnightOf loc start) start endT)"
    by (rule getStats_Inr)
  have ex: "isl (qRain d (midnightOf loc start))
              = (find (\<lambda>r. r_dateTime r = midnightOf loc start) rrows = None)"
    using assms(2) by (simp add: qRain_def queryRowSum_def split: option.splits)
  have fb: "qRainFallback d start endT =
      (case find (\<lambda>r. start \<le> r_dateTime r \<and> r_dateTime r < endT) rrows of
         None \<Rightarrow> Inl ErrNoRows | Some r \<Rightarrow> Inr (r_sum r))"
    using assms(2) by (simp add: qRainFallback_def queryRowSum_def inWindow_def)
  have w: "isl (qRain d (midnightOf loc start)) \<Longrightarrow> isl (qRainFallback d start endT) \<Longrightarrow>
      Stderr (WarnRainNotFound (midnightOf loc start)) \<in> set (snd (getStats d loc start endT))"
    unfolding getStats_events[OF q] by (simp add: getStats_rain_warnings)
  have v: "isl (qRain d (midnightOf loc start)) \<Longrightarrow>
      fst (getStats_rain d (midnightOf loc start) start endT) =
        (case qRainFallback d start endT of Inl e \<Rightarrow> Fin 0 | Inr None \<Rightarrow> Fin 0
         | Inr (Some v) \<Rightarrow> Fin (v * 10))"
    by (auto simp: getStats_rain_def split: sum.splits option.splits)
  show ?thesis
    using s getStats_rainQueries[OF q, of loc] w v
    by (auto simp: r ex fb split: option.splits)
qed

text \<open>
  Claim C7 on the concrete station with an empty rollup table.
\<close>

theorem rain_lookup_falls_back_witness:
  "archive (stationDb []) = Table sampleArchive
   \<and> archive_day_rain (stationDb []) = Table []
   \<and> rainQueries (snd (getStats (stationDb []) (fixedZone 0) (dayStartAt 1) (dayStartAt 0)))
       = [QRain (midnightOf (fixedZone 0) (dayStartAt 1)), QRainFallback (dayStartAt 1) (dayStartAt 0)]
   \<and> Stderr (WarnRainNotFound (midnightOf (fixedZone 0) (dayStartAt 1)))
       \<in> set (snd (getStats (stationDb []) (fixedZone 0) (dayStartAt 1) (dayStartAt 0)))
   \<and> fst (getStats (stationDb []) (fixedZone 0) (dayStartAt 1) (dayStartAt 0)) = Inr \<lparr> tMax = Fin 14, tMin = Fin 9, rainSum = Fin 0, sunHours = 2 \<rparr>"
proof -
  have a: "archive (stationDb []) = Table sampleArchive"
    by (simp add: stationDb_def)
  have r: "archive_day_rain (stationDb []) = Table []"
    by (simp add: stationDb_def)
  have g: "fst (getStats (stationDb []) (fixedZone 0) (dayStartAt 1) (dayStartAt 0)) = Inr \<lparr> tMax = Fin 14, tMin = Fin 9, rainSum = Fin 0, sunHours = 2 \<rparr>"
    by code_simp
  from rain_lookup_falls_back[OF a r, of "fixedZone 0" "dayStartAt 1" "dayStartAt 0"]
  have "rainQueries (snd (getStats (stationDb []) (fixedZone 0) (dayStartAt 1) (dayStartAt 0)))
       = [QRain (midnightOf (fixedZone 0) (dayStartAt 1)), QRainFallback (dayStartAt 1) (dayStartAt 0)]"
    and "Stderr (WarnRainNotFound (midnightOf (fixedZone 0) (dayStartAt 1)))
       \<in> set (snd (getStats (stationDb []) (fixedZone 0) (dayStartAt 1) (dayStartAt 0)))"
    by auto
  with a r g show ?thesis by blast
qed

text \<open>
  Claim C10.  The time-span query is sent exactly when the exact-midnight query returns
  no row (or fails).  When the exact-midnight row exists with a NULL sum, \<open>rainSum\<close> is
  zero, the NULL warning is written, and the time-span query is not sent.
\<close>

theorem fallback_only_without_exact_row:
  assumes "fst (getStats d loc start endT) = Inr s"
  shows "rainQueries (snd (getStats d loc start endT)) =
           (if isl (qRain d (midnightOf loc start))
            then [QRain (midnightOf loc start), QRainFallback start endT]
            else [QRain (midnightOf loc start)])
       \<and> (qRain d (midnightOf loc start) = Inr None \<longrightarrow>
            rainSum s = Fin 0
            \<and> Stderr (WarnRainNull (midnightOf loc start)) \<in> set (snd (getStats d loc start endT))
            \<and> Query (QRainFallback start endT) \<notin> set (snd (getStats d loc start endT)))"
proof -
  from assms obtain a b where q: "qSummary d start endT = Inr (a, b)"
    and r: "rainSum s = fst (getStats_rain d (midnightOf loc start) start endT)"
    by (rule getStats_Inr)
  have n: "qRain d (midnightOf loc start) = Inr None \<Longrightarrow>
      getStats_rain d (midnightOf loc start) start endT =
        (Fin 0, [Query (QRain (midnightOf loc start)), Stderr (WarnRainNull (midnightOf loc start))])"
    by (simp add: getStats_rain_def)
  show ?thesis
    using getStats_rainQueries[OF q, of loc] n
    by (auto simp: r getStats_events[OF q] split: option.splits)
qed

text \<open>
  Claim C10 on a rollup table with a NULL sum at local midnight and a value in a later
  row of the same window.
\<close>

theorem fallback_only_without_exact_row_witness:
  "fst (getStats (stationDb [DayRainRow (dayStartAt 1) None, DayRainRow (dayStartAt 1 + 3600) (Some 5)]) (fixedZone 0) (dayStartAt 1) (dayStartAt 0)) = Inr \<lparr> tMax = Fin 14, tMin = Fin 9, rainSum = Fin 0, sunHours = 2 \<rparr>
   \<and> qRain (stationDb [DayRainRow (dayStartAt 1) None, DayRainRow (dayStartAt 1 + 3600) (Some 5)]) (midnightOf (fixedZone 0) (dayStartAt 1)) = Inr None
   \<and> rainQueries (snd (getStats (stationDb [DayRainRow (dayStartAt 1) None, DayRainRow (dayStartAt 1 + 3600) (Some 5)]) (fixedZone 0) (dayStartAt 1) (dayStartAt 0))) = [QRain (midnightOf (fixedZone 0) (dayStartAt 1))]
   \<and> rainSum \<lparr> tMax = Fin 14, tMin = Fin 9, rainSum = Fin 0, sunHours = 2 \<rparr> = Fin 0
   \<and> Stderr (WarnRainNull (midnightOf (fixedZone 0) (dayStartAt 1))) \<in> set (snd (getStats (stationDb [DayRainRow (dayStartAt 1) None, DayRainRow (dayStartAt 1 + 3600) (Some 5)]) (fixedZone 0) (dayStartAt 1) (dayStartAt 0)))
   \<and> Query (QRainFallback (dayStartAt 1) (dayStartAt 0)) \<notin> set (snd (getStats (stationDb [DayRainRow (dayStartAt 1) None, DayRainRow (dayStartAt 1 + 3600) (Some 5)]) (fixedZone 0) (dayStartAt 1) (dayStartAt 0)))"
proof -
  have g: "fst (getStats (stationDb [DayRainRow (dayStartAt 1) None, DayRainRow (dayStartAt 1 + 3600) (Some 5)]) (fixedZone 0) (dayStartAt 1) (dayStartAt 0)) = Inr \<lparr> tMax = Fin 14, tMin = Fin 9, rainSum = Fin 0, sunHours = 2 \<rparr>"
    by code_simp
  have q: "qRain (stationDb [DayRainRow (dayStartAt 1) None, DayRainRow (dayStartAt 1 + 3600) (Some 5)]) (midnightOf (fixedZone 0) (dayStartAt 1)) = Inr None"
    by code_simp
  from fallback_only_without_exact_row[OF g] q
  have "rainQueries (snd (getStats (stationDb [DayRainRow (dayStartAt 1) None, DayRainRow (dayStartAt 1 + 3600) (Some 5)]) (fixedZone 0) (dayStartAt 1) (dayStartAt 0))) = [QRain (midnightOf (fixedZone 0) (dayStartAt 1))]"
    and "rainSum \<lparr> tMax = Fin 14, tMin = Fin 9, rainSum = Fin 0, sunHours = 2 \<rparr> = Fin 0"
    and "Stderr (WarnRainNull (midnightOf (fixedZone 0) (dayStartAt 1))) \<in> set (snd (getStats (stationDb [DayRainRow (dayStartAt 1) None, DayRainRow (dayStartAt 1 + 3600) (Some 5)]) (fixedZone 0) (dayStartAt 1) (dayStartAt 0)))"
    and "Query (QRainFallback (dayStartAt 1) (dayStartAt 0)) \<notin> set (snd (getStats (stationDb [DayRainRow (dayStartAt 1) None, DayRainRow (dayStartAt 1 + 3600) (Some 5)]) (fixedZone 0) (dayStartAt 1) (dayStartAt 0)))"
    by simp_all
  with g q show ?thesis by blast
qed

text \<open>
  Claim C8 as stated fails: the code multiplies whatever the rollup row holds, so a stored
  sum of \<open>-1\<close> gives \<open>rainSum = -10\<close>.
\<close>

theorem negative_rollup_counterexample:
  "fst (getStats (stationDb [DayRainRow (dayStartAt 1) (Some (- 1))]) (fixedZone 0)
          (dayStartAt 1) (dayStartAt 0))
     = Inr \<lparr> tMax = Fin 14, tMin = Fin 9, rainSum = Fin (- 10), sunHours = 2 \<rparr>
   \<and> \<not> f_ge (rainSum \<lparr> tMax = Fin 14, tMin = Fin 9, rainSum = Fin (- 10), sunHours = 2 \<rparr>) 0"
  by code_simp

text \<open>
  Claim C8, amended.  \<open>rainSum\<close> is never not-a-number; it is zero when neither rollup
  query returns a row and when the row returned has a NULL sum; and when the lookup returns
  a value, from the exact-midnight row or else from the first row of the window,
  \<open>rainSum\<close> is zero-or-positive exactly when that value is not negative.
\<close>

theorem rainSum_sign_follows_returned_value:
  assumes "fst (getStats d loc start endT) = Inr s"
  shows "\<not> IsNaN (rainSum s)
       \<and> (isl (qRain d (midnightOf loc start)) \<and> isl (qRainFallback d start endT)
            \<longrightarrow> rainSum s = Fin 0)
       \<and> (qRain d (midnightOf loc start) = Inr None
            \<or> (isl (qRain d (midnightOf loc start)) \<and> qRainFallback d start endT = Inr None)
            \<longrightarrow> rainSum s = Fin 0)
       \<and> (qRain d (midnightOf loc start) = Inr (Some v)
            \<or> (isl (qRain d (midnightOf loc start)) \<and> qRainFallback d start endT = Inr (Some v))
            \<longrightarrow> f_ge (rainSum s) 0 = (v \<ge> 0))"
proof -
  from assms have r: "rainSum s = fst (getStats_rain d (midnightOf loc start) start endT)"
    by (rule getStats_Inr)
  show ?thesis unfolding r
    by (auto simp: getStats_rain_def split: sum.splits option.splits)
qed

text \<open>
  The amended claim C8 on four rollup tables: a positive sum at local midnight beside a
  negative sum on another day, a negative sum that only the time-span query finds, a NULL
  sum at local midnight, and no row.
\<close>

theorem rainSum_sign_follows_returned_value_witness:
  "fst (getStats (stationDb [DayRainRow (dayStartAt 5) (Some (- 1)), DayRainRow (dayStartAt 1) (Some 1.23)])
          (fixedZone 0) (dayStartAt 1) (dayStartAt 0))
     = Inr \<lparr> tMax = Fin 14, tMin = Fin 9, rainSum = Fin 12.3, sunHours = 2 \<rparr>
   \<and> qRain (stationDb [DayRainRow (dayStartAt 5) (Some (- 1)), DayRainRow (dayStartAt 1) (Some 1.23)])
        (midnightOf (fixedZone 0) (dayStartAt 1)) = Inr (Some 1.23)
   \<and> f_ge (rainSum \<lparr> tMax = Fin 14, tMin = Fin 9, rainSum = Fin 12.3, sunHours = 2 \<rparr>) 0
   \<and> \<not> IsNaN (rainSum \<lparr> tMax = Fin 14, tMin = Fin 9, rainSum = Fin 12.3, sunHours = 2 \<rparr>)
   \<and> fst (getStats (stationDb [DayRainRow (dayStartAt 1 + 3600) (Some (- 1))])
          (fixedZone 0) (dayStartAt 1) (dayStartAt 0))
     = Inr \<lparr> tMax = Fin 14, tMin = Fin 9, rainSum = Fin (- 10), sunHours = 2 \<rparr>
   \<and> isl (qRain (stationDb [DayRainRow (dayStartAt 1 + 3600) (Some (- 1))])
        (midnightOf (fixedZone 0) (dayStartAt 1)))
   \<and> qRainFallback (stationDb [DayRainRow (dayStartAt 1 + 3600) (Some (- 1))])
        (dayStartAt 1) (dayStartAt 0) = Inr (Some (- 1))
   \<and> \<not> f_ge (rainSum \<lparr> tMax = Fin 14, tMin = Fin 9, rainSum = Fin (- 10), sunHours = 2 \<rparr>) 0
   \<and> fst (getStats (stationDb [DayRainRow (dayStartAt 1) None]) (fixedZone 0)
          (dayStartAt 1) (dayStartAt 0))
     = Inr \<lparr> tMax = Fin 14, tMin = Fin 9, rainSum = Fin 0, sunHours = 2 \<rparr>
   \<and> qRain (stationDb [DayRainRow (dayStartAt 1) None])
        (midnightOf (fixedZone 0) (dayStartAt 1)) = Inr None
   \<and> fst (getStats (stationDb []) (fixedZone 0) (dayStartAt 1) (dayStartAt 0))
     = Inr \<lparr> tMax = Fin 14, tMin = Fin 9, rainSum = Fin 0, sunHours = 2 \<rparr>
   \<and> isl (qRain (stationDb []) (midnightOf (fixedZone 0) (dayStartAt 1)))
   \<and> isl (qRainFallback (stationDb []) (dayStartAt 1) (dayStartAt 0))
   \<and> rainSum \<lparr> tMax = Fin 14, tMin = Fin 9, rainSum = Fin 0, sunHours = 2 \<rparr> = Fin 0"
proof -
  have g1: "fst (getStats (stationDb [DayRainRow (dayStartAt 5) (Some (- 1)), DayRainRow (dayStartAt 1) (Some 1.23)])
          (fixedZone 0) (dayStartAt 1) (dayStartAt 0))
     = Inr \<lparr> tMax = Fin 14, tMin = Fin 9, rainSum = Fin 12.3, sunHours = 2 \<rparr>"
    by code_simp
  have q1: "qRain (stationDb [DayRainRow (dayStartAt 5) (Some (- 1)), DayRainRow (dayStartAt 1) (Some 1.23)])
        (midnightOf (fixedZone 0) (dayStartAt 1)) = Inr (Some 1.23)"
    by code_simp
  have g2: "fst (getStats (stationDb [DayRainRow (dayStartAt 1 + 3600) (Some (- 1))])
          (fixedZone 0) (dayStartAt 1) (dayStartAt 0))
     = Inr \<lparr> tMax = Fin 14, tMin = Fin 9, rainSum = Fin (- 10), sunHours = 2 \<rparr>"
    by code_simp
  have q2: "isl (qRain (stationDb [DayRainRow (dayStartAt 1 + 3600) (Some (- 1))])
        (midnightOf (fixedZone 0) (dayStartAt 1)))"
    by code_simp
  have q2': "qRainFallback (stationDb [DayRainRow (dayStartAt 1 + 3600) (Some (- 1))])
        (dayStartAt 1) (dayStartAt 0) = Inr (Some (- 1))"
    by code_simp
  have g3: "fst (getStats (stationDb [DayRainRow (dayStartAt 1) None]) (fixedZone 0)
          (dayStartAt 1) (dayStartAt 0))
     = Inr \<lparr> tMax = Fin 14, tMin = Fin 9, rainSum = Fin 0, sunHours = 2 \<rparr>"
    by code_simp
  have q3: "qRain (stationDb [DayRainRow (dayStartAt 1) None])
        (midnightOf (fixedZone 0) (dayStartAt 1)) = Inr None"
    by code_simp
  have g4: "fst (getStats (stationDb []) (fixedZone 0) (dayStartAt 1) (dayStartAt 0))
     = Inr \<lparr> tMax = Fin 14, tMin = Fin 9, rainSum = Fin 0, sunHours = 2 \<rparr>"
    by code_simp
  have q4: "isl (qRain (stationDb []) (midnightOf (fixedZone 0) (dayStartAt 1)))"
    by code_simp
  have q4': "isl (qRainFallback (stationDb []) (dayStartAt 1) (dayStartAt 0))"
    by code_simp
  from rainSum_sign_follows_returned_value[OF g1, of "1.23"] q1
  have e1: "f_ge (rainSum \<lparr> tMax = Fin 14, tMin = Fin 9, rainSum = Fin 12.3, sunHours = 2 \<rparr>) 0
              = ((1.23::real) \<ge> 0)"
    and n1: "\<not> IsNaN (rainSum \<lparr> tMax = Fin 14, tMin = Fin 9, rainSum = Fin 12.3, sunHours = 2 \<rparr>)"
    by blast+
  have "(1.23::real) \<ge> 0" by simp
  with e1
  have c1: "f_ge (rainSum \<lparr> tMax = Fin 14, tMin = Fin 9, rainSum = Fin 12.3, sunHours = 2 \<rparr>) 0"
    by blast
  from rainSum_sign_follows_returned_value[OF g2, of "- 1"] q2 q2'
  have e2: "f_ge (rainSum \<lparr> tMax = Fin 14, tMin = Fin 9, rainSum = Fin (- 10), sunHours = 2 \<rparr>) 0
              = ((- 1::real) \<ge> 0)"
    by blast
  have "\<not> (- 1::real) \<ge> 0" by simp
  with e2
  have c2: "\<not> f_ge (rainSum \<lparr> tMax = Fin 14, tMin = Fin 9, rainSum = Fin (- 10), sunHours = 2 \<rparr>) 0"
    by blast
  from rainSum_sign_follows_returned_value[OF g3] q3
  have c3: "rainSum \<lparr> tMax = Fin 14, tMin = Fin 9, rainSum = Fin 0, sunHours = 2 \<rparr> = Fin 0"
    by blast
  from rainSum_sign_follows_returned_value[OF g4] q4 q4'
  have c4: "rainSum \<lparr> tMax = Fin 14, tMin = Fin 9, rainSum = Fin 0, sunHours = 2 \<rparr> = Fin 0"
    by blast
  from g1 q1 c1 n1 g2 q2 q2' c2 g3 q3 g4 q4 q4' c4 show ?thesis by blast
qed

section \<open>The guard against invalid temperatures\<close>

text \<open>
  Claim C5.  When one of the four temperature extremes is not-a-number, the events of the
  cycle are those of the two \<open>getStats\<close> calls followed by the warning: no streak query
  is sent after them, and no event carries a title or a body.
\<close>

theorem nan_guard_skips_cycle:
  assumes "getStats d loc (ds 1) (ds 0) = (Inr statsY, evY)"
      and "getStats d loc (ds 2) (ds 1) = (Inr statsV, evV)"
      and "IsNaN (tMax statsY) \<or> IsNaN (tMin statsY) \<or> IsNaN (tMax statsV) \<or> IsNaN (tMin statsV)"
  shows "runWeatherPosting d cfg testMode loopMode loc ds = evY @ evV @ [LogPrintf WarnNaNSkip]
         \<and> filter isReportEvent (runWeatherPosting d cfg testMode loopMode loc ds) = []"
proof -
  have run: "runWeatherPosting d cfg testMode loopMode loc ds = evY @ evV @ [LogPrintf WarnNaNSkip]"
    using assms by (simp add: runWeatherPosting_def)
  have "filter isReportEvent evY = []" "filter isReportEvent evV = []"
    using getStats_events_plain[of d loc "ds 1" "ds 0"] getStats_events_plain[of d loc "ds 2" "ds 1"]
      assms(1,2) by simp_all
  with run show ?thesis by simp
qed

text \<open>
  Claim C5 on the concrete station, whose day before yesterday has no temperature, with a
  configuration that would otherwise publish to both platforms.
\<close>

theorem nan_guard_skips_cycle_witness:
  "getStats (stationDb []) (fixedZone 0) (dayStartAt 1) (dayStartAt 0)
     = (Inr \<lparr> tMax = Fin 14, tMin = Fin 9, rainSum = Fin 0, sunHours = 2 \<rparr>,
        [Query (QSummary 8553600 8640000), Query (QRain 8553600),
         Query (QRainFallback 8553600 8640000), Stderr (WarnRainNotFound 8553600),
         Query (QHourly 8553600 8640000)])
   \<and> getStats (stationDb []) (fixedZone 0) (dayStartAt 2) (dayStartAt 1)
     = (Inr \<lparr> tMax = NaN, tMin = NaN, rainSum = Fin 0, sunHours = 0 \<rparr>,
        [Query (QSummary 8467200 8553600), Stderr (WarnMaxNull 8467200 8553600),
         Stderr (WarnMinNull 8467200 8553600), Query (QRain 8467200),
         Query (QRainFallback 8467200 8553600), Stderr (WarnRainNotFound 8467200),
         Query (QHourly 8467200 8553600)])
   \<and> IsNaN (tMax \<lparr> tMax = NaN, tMin = NaN, rainSum = Fin 0, sunHours = 0 \<rparr>)
   \<and> runWeatherPosting (stationDb []) liveConfig False False (fixedZone 0) dayStartAt
     = [Query (QSummary 8553600 8640000), Query (QRain 8553600),
        Query (QRainFallback 8553600 8640000), Stderr (WarnRainNotFound 8553600),
        Query (QHourly 8553600 8640000),
        Query (QSummary 8467200 8553600), Stderr (WarnMaxNull 8467200 8553600),
        Stderr (WarnMinNull 8467200 8553600), Query (QRain 8467200),
        Query (QRainFallback 8467200 8553600), Stderr (WarnRainNotFound 8467200),
        Query (QHourly 8467200 8553600),
        LogPrintf WarnNaNSkip]
   \<and> filter isReportEvent
        (runWeatherPosting (stationDb []) liveConfig False False (fixedZone 0) dayStartAt) = []"
proof -
  have y: "getStats (stationDb []) (fixedZone 0) (dayStartAt 1) (dayStartAt 0)
     = (Inr \<lparr> tMax = Fin 14, tMin = Fin 9, rainSum = Fin 0, sunHours = 2 \<rparr>,
        [Query (QSummary 8553600 8640000), Query (QRain 8553600),
         Query (QRainFallback 8553600 8640000), Stderr (WarnRainNotFound 8553600),
         Query (QHourly 8553600 8640000)])"
    by code_simp
  have v: "getStats (stationDb []) (fixedZone 0) (dayStartAt 2) (dayStartAt 1)
     = (Inr \<lparr> tMax = NaN, tMin = NaN, rainSum = Fin 0, sunHours = 0 \<rparr>,
        [Query (QSummary 8467200 8553600), Stderr (WarnMaxNull 8467200 8553600),
         Stderr (WarnMinNull 8467200 8553600), Query (QRain 8467200),
         Query (QRainFallback 8467200 8553600), Stderr (WarnRainNotFound 8467200),
         Query (QHourly 8467200 8553600)])"
    by code_simp
  have n: "IsNaN (tMax \<lparr> tMax = NaN, tMin = NaN, rainSum = Fin 0, sunHours = 0 \<rparr>)"
    by simp
  then have n': "IsNaN (tMax \<lparr> tMax = Fin 14, tMin = Fin 9, rainSum = Fin 0, sunHours = 2 \<rparr>)
      \<or> IsNaN (tMin \<lparr> tMax = Fin 14, tMin = Fin 9, rainSum = Fin 0, sunHours = 2 \<rparr>)
      \<or> IsNaN (tMax \<lparr> tMax = NaN, tMin = NaN, rainSum = Fin 0, sunHours = 0 \<rparr>)
      \<or> IsNaN (tMin \<lparr> tMax = NaN, tMin = NaN, rainSum = Fin 0, sunHours = 0 \<rparr>)"
    by blast
  from nan_guard_skips_cycle[OF y v n', of liveConfig False False]
  have r: "runWeatherPosting (stationDb []) liveConfig False False (fixedZone 0) dayStartAt
     = [Query (QSummary 8553600 8640000), Query (QRain 8553600),
        Query (QRainFallback 8553600 8640000), Stderr (WarnRainNotFound 8553600),
        Query (QHourly 8553600 8640000),
        Query (QSummary 8467200 8553600), Stderr (WarnMaxNull 8467200 8553600),
        Stderr (WarnMinNull 8467200 8553600), Query (QRain 8467200),
        Query (QRainFallback 8467200 8553600), Stderr (WarnRainNotFound 8467200),
        Query (QHourly 8467200 8553600),
        LogPrintf WarnNaNSkip]"
    and f: "filter isReportEvent
        (runWeatherPosting (stationDb []) liveConfig False False (fixedZone 0) dayStartAt) = []"
    by simp_all
  from y v n r f show ?thesis by blast
qed

section \<open>The emoji prefix\<close>

lemma strings_Join_spaced:
  "xs \<noteq> [] \<Longrightarrow>
     strings_Join (map (\<lambda>g. g @ '' '') xs) '' '' @ '' '' = concat (map (\<lambda>g. g @ ''  '') xs)"
  by (induction xs rule: induct_list012) simp_all

lemma emojis_eq: "emojis s = map (\<lambda>g. g @ '' '') (firedEmojis s)"
  by (simp add: emojis_def firedEmojis_def heatTier_def List.map_filter_def Let_def)

text \<open>
  Claim C6 as stated fails in its joining rule.  Every literal the code appends already
  ends in a space, so for \<open>tMax = 36\<close>, \<open>tMin = -1\<close>, \<open>rainSum = 5\<close> the prefix does not
  start with the three pictographs joined by single spaces: two spaces follow each of them.
\<close>

theorem emoji_single_space_counterexample:
  "\<not> prefix (strings_Join [emojiRain, emojiHeatwave, emojiFrost] '' '')
        (emojiString \<lparr> tMax = Fin 36, tMin = Fin (- 1), rainSum = Fin 5, sunHours = 0 \<rparr>)
   \<and> emojiString \<lparr> tMax = Fin 36, tMin = Fin (- 1), rainSum = Fin 5, sunHours = 0 \<rparr>
       = emojiRain @ ''  '' @ emojiHeatwave @ ''  '' @ emojiFrost @ ''  ''"
  by code_simp

text \<open>
  Claim C6, amended.  The prefix holds the pictographs of the rules that fire, in the order
  rain, heat tier, frost, freeze, warm night, each followed by two spaces; it is empty
  when no rule fires.
\<close>

theorem emoji_prefix_in_rule_order:
  "emojiString s = concat (map (\<lambda>g. g @ ''  '') (firedEmojis s))"
proof (cases "firedEmojis s = []")
  case True
  then show ?thesis by (simp add: emojiString_def emojis_eq)
next
  case False
  then show ?thesis
    using strings_Join_spaced[OF False] by (simp add: emojiString_def emojis_eq)
qed

end
